theory Spec2Isabelle
  imports Complex_Main
begin

section \<open>Data model of the agent-tracking view\<close>

text \<open>
  The interfaces of \<^verbatim>\<open>WebSocketService.ts\<close> and \<^verbatim>\<open>AgentTracking.tsx\<close>.
  \<^verbatim>\<open>connectionStatus: 'ONLINE' | 'OFFLINE' | 'DISCONNECTED'\<close> is a three-valued enum.
  A JavaScript \<^verbatim>\<open>number\<close> that is only carried around (never computed with) is a
  \<open>real\<close>; an optional field \<^verbatim>\<open>f?: T\<close> is a \<open>T option\<close>, \<open>None\<close> meaning that the
  object has no property \<^verbatim>\<open>f\<close>.
\<close>

datatype connection_status = ONLINE | OFFLINE | DISCONNECTED

text \<open>\<^verbatim>\<open>interface ConnectionStatusUpdate { agentId; status; timestamp }\<close>\<close>

record ConnectionStatusUpdate =
  agentId :: string
  status :: connection_status
  timestamp :: string

text \<open>
  \<^verbatim>\<open>interface AgentLocation\<close> (the stored record) and \<^verbatim>\<open>interface AgentLocationUpdate\<close>
  (the streamed event) declare the same thirteen fields with the same types; TypeScript
  types are structural, so both are one record type here.
\<close>

record AgentLocation =
  agentId :: string
  agentFirstName :: string
  agentLastName :: string
  agentMobile :: string
  lastLocation :: string
  latitude :: real
  longitude :: real
  accuracy :: "real option"
  connectionStatus :: connection_status
  lastUpdate :: string
  batteryLevel :: "real option"
  isCharging :: "bool option"
  isOnline :: bool

type_synonym AgentLocationUpdate = AgentLocation

section \<open>The reconciliation store: \<^verbatim>\<open>handleLocationUpdate\<close>, \<^verbatim>\<open>handleStatusUpdate\<close>\<close>

text \<open>
  The object spread \<^verbatim>\<open>{ ...agent, ...update, lastUpdate: currentTime }\<close>: every property
  that \<^verbatim>\<open>update\<close> has overrides the one of \<^verbatim>\<open>agent\<close>; a property that \<^verbatim>\<open>update\<close> lacks
  keeps the value of \<^verbatim>\<open>agent\<close>; \<^verbatim>\<open>lastUpdate\<close> is then set. The ten required fields are
  always present in the update; the three optional ones may be absent.
\<close>

definition spread_agent_update :: "AgentLocation \<Rightarrow> AgentLocationUpdate \<Rightarrow> string \<Rightarrow> AgentLocation" where
  "spread_agent_update agent update currentTime =
     \<lparr> agentId = agentId update,
       agentFirstName = agentFirstName update,
       agentLastName = agentLastName update,
       agentMobile = agentMobile update,
       lastLocation = lastLocation update,
       latitude = latitude update,
       longitude = longitude update,
       accuracy = (case accuracy update of Some v \<Rightarrow> Some v | None \<Rightarrow> accuracy agent),
       connectionStatus = connectionStatus update,
       lastUpdate = currentTime,
       batteryLevel = (case batteryLevel update of Some v \<Rightarrow> Some v | None \<Rightarrow> batteryLevel agent),
       isCharging = (case isCharging update of Some v \<Rightarrow> Some v | None \<Rightarrow> isCharging agent),
       isOnline = isOnline update \<rparr>"

text \<open>The spread \<^verbatim>\<open>{ ...update, lastUpdate: currentTime }\<close> of the insertion branch.\<close>

definition spread_update :: "AgentLocationUpdate \<Rightarrow> string \<Rightarrow> AgentLocation" where
  "spread_update update currentTime = update \<lparr> lastUpdate := currentTime \<rparr>"

text \<open>
  \<^verbatim>\<open>handleLocationUpdate\<close>, the function passed to \<^verbatim>\<open>setAgents\<close>: the previous list and
  the receipt time \<^verbatim>\<open>new Date().toISOString()\<close> are arguments. \<^verbatim>\<open>Array.find\<close> is
  \<open>find\<close>; \<^verbatim>\<open>push\<close> appends at the end.
\<close>

definition handleLocationUpdate ::
  "AgentLocationUpdate \<Rightarrow> string \<Rightarrow> AgentLocation list \<Rightarrow> AgentLocation list" where
  "handleLocationUpdate update currentTime prevAgents =
     (let updatedAgents =
            map (\<lambda>agent. if agentId agent = agentId update
                          then spread_agent_update agent update currentTime
                          else agent) prevAgents
      in if find (\<lambda>agent. agentId agent = agentId update) updatedAgents = None
         then updatedAgents @ [spread_update update currentTime]
         else updatedAgents)"

text \<open>\<^verbatim>\<open>handleStatusUpdate\<close>, likewise.\<close>

definition handleStatusUpdate ::
  "ConnectionStatusUpdate \<Rightarrow> string \<Rightarrow> AgentLocation list \<Rightarrow> AgentLocation list" where
  "handleStatusUpdate update currentTime prevAgents =
     map (\<lambda>agent. if agentId agent = ConnectionStatusUpdate.agentId update
                   then agent \<lparr> connectionStatus := status update,
                                isOnline := (status update = ONLINE),
                                lastUpdate := currentTime \<rparr>
                   else agent) prevAgents"

text \<open>
  The success branch of \<^verbatim>\<open>loadAgentLocations\<close> stores the snapshot as it came:
  \<^verbatim>\<open>setAgents(result.data || [])\<close>; \<open>None\<close> is a missing or null \<^verbatim>\<open>data\<close>.
\<close>

definition loadSnapshot :: "AgentLocation list option \<Rightarrow> AgentLocation list" where
  "loadSnapshot data = (case data of Some xs \<Rightarrow> xs | None \<Rightarrow> [])"

text \<open>The invariant of the spec for one record, and for the store.\<close>

definition isOnline_consistent :: "AgentLocation \<Rightarrow> bool" where
  "isOnline_consistent a = (isOnline a = (connectionStatus a = ONLINE))"

definition store_consistent :: "AgentLocation list \<Rightarrow> bool" where
  "store_consistent agents = list_all isOnline_consistent agents"

text \<open>Concrete records used by the examples below.\<close>

definition agentA1 :: AgentLocation where
  "agentA1 =
     \<lparr> agentId = ''A1'', agentFirstName = ''Asha'', agentLastName = ''Rao'',
       agentMobile = ''9000000001'', lastLocation = ''Delhi'',
       latitude = 2861 / 100, longitude = 7720 / 100, accuracy = Some 5,
       connectionStatus = OFFLINE, lastUpdate = ''t0'',
       batteryLevel = Some 80, isCharging = Some False, isOnline = False \<rparr>"

definition sparseUpdateA1 :: AgentLocationUpdate where
  "sparseUpdateA1 =
     \<lparr> agentId = ''A1'', agentFirstName = ''Asha'', agentLastName = ''Rao'',
       agentMobile = ''9000000001'', lastLocation = ''Delhi'',
       latitude = 28615 / 1000, longitude = 77205 / 1000, accuracy = None,
       connectionStatus = ONLINE, lastUpdate = ''t1'',
       batteryLevel = None, isCharging = None, isOnline = True \<rparr>"

definition inconsistentUpdateA2 :: AgentLocationUpdate where
  "inconsistentUpdateA2 =
     \<lparr> agentId = ''A2'', agentFirstName = ''Bo'', agentLastName = ''Li'',
       agentMobile = ''9000000002'', lastLocation = ''Pune'',
       latitude = 18, longitude = 73, accuracy = None,
       connectionStatus = OFFLINE, lastUpdate = ''t1'',
       batteryLevel = None, isCharging = None, isOnline = True \<rparr>"

definition statusUpdateA9 :: ConnectionStatusUpdate where
  "statusUpdateA9 = \<lparr> ConnectionStatusUpdate.agentId = ''A9'', status = ONLINE, timestamp = ''t2'' \<rparr>"

section \<open>The streaming connection manager: \<^verbatim>\<open>class WebSocketService\<close>\<close>

text \<open>
  The private fields of the class, and what the class does to the outside world:
  \<^item> \<open>clientCreated\<close>: \<^verbatim>\<open>this.client\<close> is not null;
  \<^item> \<open>clientActive\<close>: the last call on the client was \<^verbatim>\<open>activate()\<close> (not \<^verbatim>\<open>deactivate()\<close>);
  \<^item> \<open>subscribeCalls\<close>: the topics of the \<^verbatim>\<open>client.subscribe\<close> calls made so far, in order;
  \<^item> \<open>reconnectTimers\<close>: the delays of the \<^verbatim>\<open>setTimeout\<close> callbacks that \<^verbatim>\<open>handleReconnect\<close>
    has scheduled and that have not fired yet, in scheduling order (the class keeps no
    handle of them and never calls \<^verbatim>\<open>clearTimeout\<close>);
  \<^item> \<open>connectionNotified\<close>: the arguments of the \<^verbatim>\<open>notifyConnectionCallbacks\<close> calls so far.
  The STOMP client library itself is outside the repository and is not modelled.
\<close>

record WebSocketService =
  clientCreated :: bool
  clientActive :: bool
  isConnected :: bool
  reconnectAttempts :: nat
  reconnectDelay :: nat
  subscribeCalls :: "string list"
  reconnectTimers :: "nat list"
  connectionNotified :: "bool list"

definition maxReconnectAttempts :: nat where
  "maxReconnectAttempts = 5"

definition maxReconnectDelay :: nat where
  "maxReconnectDelay = 30000"

text \<open>
  \<^verbatim>\<open>setupClient\<close>: the token is \<^verbatim>\<open>localStorage.getItem('voter_admin_token')\<close>, \<open>None\<close> for
  null; \<^verbatim>\<open>!token\<close> holds for null and for the empty string.
\<close>

definition setupClient :: "string option \<Rightarrow> WebSocketService \<Rightarrow> WebSocketService" where
  "setupClient token s =
     (if token = None \<or> token = Some [] then s
      else s \<lparr> clientCreated := True, clientActive := False \<rparr>)"

definition constructor :: "string option \<Rightarrow> WebSocketService" where
  "constructor token =
     setupClient token
       \<lparr> clientCreated = False, clientActive = False, isConnected = False,
         reconnectAttempts = 0, reconnectDelay = 1000,
         subscribeCalls = [], reconnectTimers = [], connectionNotified = [] \<rparr>"

definition notifyConnectionCallbacks :: "bool \<Rightarrow> WebSocketService \<Rightarrow> WebSocketService" where
  "notifyConnectionCallbacks isUp s =
     s \<lparr> connectionNotified := connectionNotified s @ [isUp] \<rparr>"

definition subscribeToTopics :: "WebSocketService \<Rightarrow> WebSocketService" where
  "subscribeToTopics s =
     (if \<not> clientCreated s \<or> \<not> isConnected s then s
      else s \<lparr> subscribeCalls := subscribeCalls s @
                 [''/topic/location/updates'', ''/topic/location/status'',
                  ''/topic/location/disconnection''] \<rparr>)"

definition connect :: "string option \<Rightarrow> WebSocketService \<Rightarrow> WebSocketService" where
  "connect token s =
     (if isConnected s then s
      else let s1 = (if \<not> clientCreated s then setupClient token s else s)
           in if clientCreated s1 then s1 \<lparr> clientActive := True \<rparr> else s1)"

text \<open>
  \<^verbatim>\<open>handleReconnect\<close>. The counter is at least 1 after \<^verbatim>\<open>this.reconnectAttempts++\<close>, so the
  exponent \<^verbatim>\<open>this.reconnectAttempts - 1\<close> is not negative; all the numbers are small
  integers, which JavaScript computes exactly.
\<close>

definition handleReconnect :: "WebSocketService \<Rightarrow> WebSocketService" where
  "handleReconnect s =
     (if reconnectAttempts s \<ge> maxReconnectAttempts then s
      else let attempts = reconnectAttempts s + 1;
               delay = min (reconnectDelay s * 2 ^ (attempts - 1)) maxReconnectDelay
           in s \<lparr> reconnectAttempts := attempts,
                   reconnectTimers := reconnectTimers s @ [delay] \<rparr>)"

text \<open>
  The callback given to \<^verbatim>\<open>setTimeout\<close> by \<^verbatim>\<open>handleReconnect\<close>, when the \<open>i\<close>-th pending
  timer fires: \<^verbatim>\<open>if (!this.isConnected) this.connect()\<close>.
\<close>

definition reconnectTimerFires :: "string option \<Rightarrow> nat \<Rightarrow> WebSocketService \<Rightarrow> WebSocketService" where
  "reconnectTimerFires token i s =
     (if i < length (reconnectTimers s)
      then let s1 = s \<lparr> reconnectTimers := take i (reconnectTimers s) @ drop (Suc i) (reconnectTimers s) \<rparr>
           in if \<not> isConnected s1 then connect token s1 else s1
      else s)"

text \<open>The five handlers installed on the client by \<^verbatim>\<open>setupClient\<close>.\<close>

definition onConnect :: "WebSocketService \<Rightarrow> WebSocketService" where
  "onConnect s =
     subscribeToTopics
       (notifyConnectionCallbacks True
          (s \<lparr> isConnected := True, reconnectAttempts := 0, reconnectDelay := 1000 \<rparr>))"

definition onDisconnect :: "WebSocketService \<Rightarrow> WebSocketService" where
  "onDisconnect s = notifyConnectionCallbacks False (s \<lparr> isConnected := False \<rparr>)"

definition onStompError :: "WebSocketService \<Rightarrow> WebSocketService" where
  "onStompError s = handleReconnect (notifyConnectionCallbacks False (s \<lparr> isConnected := False \<rparr>))"

definition onWebSocketError :: "WebSocketService \<Rightarrow> WebSocketService" where
  "onWebSocketError s = handleReconnect (notifyConnectionCallbacks False (s \<lparr> isConnected := False \<rparr>))"

definition onWebSocketClose :: "WebSocketService \<Rightarrow> WebSocketService" where
  "onWebSocketClose s = handleReconnect (notifyConnectionCallbacks False (s \<lparr> isConnected := False \<rparr>))"

definition disconnect :: "WebSocketService \<Rightarrow> WebSocketService" where
  "disconnect s =
     (if clientCreated s
      then notifyConnectionCallbacks False (s \<lparr> clientActive := False, isConnected := False \<rparr>)
      else s)"

definition isWebSocketConnected :: "WebSocketService \<Rightarrow> bool" where
  "isWebSocketConnected s = isConnected s"

text \<open>
  A transport failure is one call of a handler that ends in \<^verbatim>\<open>handleReconnect\<close>; a run of
  consecutive failures is a list of them, with no \<^verbatim>\<open>onConnect\<close> in between.
\<close>

datatype transport_failure = StompError | WebSocketError | WebSocketClose

definition onFailure :: "transport_failure \<Rightarrow> WebSocketService \<Rightarrow> WebSocketService" where
  "onFailure f s =
     (case f of StompError \<Rightarrow> onStompError s
              | WebSocketError \<Rightarrow> onWebSocketError s
              | WebSocketClose \<Rightarrow> onWebSocketClose s)"

definition consecutiveFailures :: "transport_failure list \<Rightarrow> WebSocketService \<Rightarrow> WebSocketService" where
  "consecutiveFailures fs s = fold onFailure fs s"

text \<open>The delay the formula of the spec gives for the \<open>n\<close>-th retry.\<close>

definition backoffDelay :: "nat \<Rightarrow> nat" where
  "backoffDelay n = min (1000 * 2 ^ (n - 1)) 30000"

section \<open>The component \<^verbatim>\<open>AgentTracking\<close>: state, closures, snapshot loading\<close>

text \<open>
  The React state variables that the modelled functions read or write, and the effects
  they have on the outside: the toasts shown, the requests sent with \<^verbatim>\<open>fetch\<close>, and the
  pending retry timers of \<^verbatim>\<open>loadAgentLocations\<close>.

  A function defined in the body of a React function component sees the state variables
  as the \<^verbatim>\<open>const\<close>s of the render that created it, not the current state: \<open>render_scope\<close>
  holds those constants. A state setter called with a function
  (\<^verbatim>\<open>setRetryCount(prev => prev + 1)\<close>, \<^verbatim>\<open>setAgents(prevAgents => ...)\<close>) does get the current
  state. The mount effect \<^verbatim>\<open>useEffect(() => {...}, [])\<close> runs once, after the first render,
  so the interval callback and the \<^verbatim>\<open>loadAgentLocations\<close> it calls are those of the first
  render; the retry callback \<^verbatim>\<open>() => loadAgentLocations(true)\<close> calls the very function
  that scheduled it, so a retry has the scope of the call it retries.
\<close>

datatype toast = ShowError string "string option" | ShowSuccess string

datatype endpoint = LocationAll | LocationMyAgents | StatsAll | StatsMyAgents

record render_scope =
  seen_wsConnected :: bool
  seen_retryCount :: nat
  seen_isMaster :: bool

record TrackingState =
  agents :: "AgentLocation list"
  loading :: bool
  wsConnected :: bool
  retryCount :: nat
  isRetrying :: bool
  toasts :: "toast list"
  fetches :: "endpoint list"
  retryTimers :: "(nat \<times> render_scope) list"

definition MAX_RETRY_ATTEMPTS :: nat where
  "MAX_RETRY_ATTEMPTS = 3"

definition RETRY_DELAY :: nat where
  "RETRY_DELAY = 2000"

definition UPDATE_INTERVAL :: nat where
  "UPDATE_INTERVAL = 30000"

text \<open>The \<^verbatim>\<open>useState\<close> initial values, and the scope a render gives to its closures.\<close>

definition initialState :: TrackingState where
  "initialState =
     \<lparr> agents = [], loading = True, wsConnected = False, retryCount = 0,
       isRetrying = False, toasts = [], fetches = [], retryTimers = [] \<rparr>"

definition render :: "bool \<Rightarrow> TrackingState \<Rightarrow> render_scope" where
  "render isMaster st =
     \<lparr> seen_wsConnected = wsConnected st, seen_retryCount = retryCount st,
       seen_isMaster = isMaster \<rparr>"

definition firstRender :: "bool \<Rightarrow> render_scope" where
  "firstRender isMaster = render isMaster initialState"

text \<open>
  What a thrown value looks like to the \<^verbatim>\<open>catch\<close> block, and how one \<^verbatim>\<open>fetch\<close> ends:
  \<open>Response ok success message data\<close> when \<^verbatim>\<open>fetch\<close> and \<^verbatim>\<open>response.json()\<close> return
  (\<^verbatim>\<open>response.ok\<close>, \<^verbatim>\<open>result.success\<close>, \<^verbatim>\<open>result.message\<close>, \<^verbatim>\<open>result.data\<close>), \<open>Rejected e\<close>
  when one of them throws \<open>e\<close>. The 10-second timer calls \<^verbatim>\<open>controller.abort()\<close>, which
  makes \<^verbatim>\<open>fetch\<close> throw an error named \<^verbatim>\<open>AbortError\<close>.
\<close>

record js_error =
  name :: string
  message :: string

datatype fetch_outcome =
    Response bool bool "string option" "AgentLocation list option"
  | Rejected js_error

definition abortError :: js_error where
  "abortError = \<lparr> name = ''AbortError'', message = ''signal is aborted without reason'' \<rparr>"

definition networkError :: js_error where
  "networkError = \<lparr> name = ''TypeError'', message = ''Failed to fetch'' \<rparr>"

text \<open>\<^verbatim>\<open>x || 'Failed to load agent locations'\<close>: the default replaces a missing or empty string.\<close>

definition orDefaultMessage :: "string option \<Rightarrow> string" where
  "orDefaultMessage m =
     (case m of None \<Rightarrow> ''Failed to load agent locations''
      | Some x \<Rightarrow> if x = [] then ''Failed to load agent locations'' else x)"

text \<open>The value that reaches the \<^verbatim>\<open>catch\<close> block of \<^verbatim>\<open>loadAgentLocations\<close>, if any.\<close>

definition thrown :: "fetch_outcome \<Rightarrow> js_error option" where
  "thrown outcome =
     (case outcome of
        Rejected e \<Rightarrow> Some e
      | Response ok success msg data \<Rightarrow>
          if ok \<and> success then None
          else Some \<lparr> name = ''Error'', message = orDefaultMessage msg \<rparr>)"

definition snapshotData :: "fetch_outcome \<Rightarrow> AgentLocation list option" where
  "snapshotData outcome =
     (case outcome of Rejected e \<Rightarrow> None | Response ok success msg data \<Rightarrow> data)"

definition locationEndpoint :: "render_scope \<Rightarrow> endpoint" where
  "locationEndpoint scope = (if seen_isMaster scope then LocationAll else LocationMyAgents)"

definition statsEndpoint :: "render_scope \<Rightarrow> endpoint" where
  "statsEndpoint scope = (if seen_isMaster scope then StatsAll else StatsMyAgents)"

text \<open>
  The \<^verbatim>\<open>catch\<close> block of \<^verbatim>\<open>loadAgentLocations\<close>. \<^verbatim>\<open>retryCount\<close> in the condition and in the
  delay is the constant of the scope; \<^verbatim>\<open>setRetryCount(prev => prev + 1)\<close> increments the
  state. The retry timer remembers its delay and the scope of the function it will call.
\<close>

definition catchBlock :: "render_scope \<Rightarrow> js_error \<Rightarrow> TrackingState \<Rightarrow> TrackingState" where
  "catchBlock scope error st =
     (if seen_retryCount scope < MAX_RETRY_ATTEMPTS \<and> name error \<noteq> ''AbortError''
      then st \<lparr> retryCount := retryCount st + 1,
                 retryTimers := retryTimers st @ [(RETRY_DELAY * (seen_retryCount scope + 1), scope)] \<rparr>
      else let errorMessage =
                 (if name error = ''AbortError''
                  then ''Request timed out. Please check your connection.''
                  else orDefaultMessage (Some (message error)))
           in st \<lparr> toasts := toasts st @ [ShowError ''Connection Error'' (Some errorMessage)],
                   agents := [] \<rparr>)"

text \<open>
  One call of \<^verbatim>\<open>loadAgentLocations(isRetryAttempt)\<close> from its start to the end of its
  \<^verbatim>\<open>finally\<close> block, given how its request ends.
\<close>

definition loadAgentLocations ::
  "render_scope \<Rightarrow> bool \<Rightarrow> fetch_outcome \<Rightarrow> TrackingState \<Rightarrow> TrackingState" where
  "loadAgentLocations scope isRetryAttempt outcome st =
     (let st1 = (if \<not> isRetryAttempt then st \<lparr> loading := True, retryCount := 0 \<rparr>
                 else st \<lparr> isRetrying := True \<rparr>);
          st2 = st1 \<lparr> fetches := fetches st1 @ [locationEndpoint scope] \<rparr>;
          st3 = (case thrown outcome of
                   None \<Rightarrow> st2 \<lparr> agents := loadSnapshot (snapshotData outcome), retryCount := 0 \<rparr>
                 | Some error \<Rightarrow> catchBlock scope error st2)
      in st3 \<lparr> loading := False, isRetrying := False \<rparr>)"

text \<open>
  \<^verbatim>\<open>loadLocationStats\<close> sends one request and never shows a toast; the statistics it
  stores are not modelled.
\<close>

definition loadLocationStats :: "render_scope \<Rightarrow> TrackingState \<Rightarrow> TrackingState" where
  "loadLocationStats scope st = st \<lparr> fetches := fetches st @ [statsEndpoint scope] \<rparr>"

text \<open>The \<open>i\<close>-th pending retry timer fires: \<^verbatim>\<open>loadAgentLocations(true)\<close> in the scope it kept.\<close>

definition retryTimerFires :: "nat \<Rightarrow> fetch_outcome \<Rightarrow> TrackingState \<Rightarrow> TrackingState" where
  "retryTimerFires i outcome st =
     (if i < length (retryTimers st)
      then loadAgentLocations (snd (retryTimers st ! i)) True outcome
             (st \<lparr> retryTimers := take i (retryTimers st) @ drop (Suc i) (retryTimers st) \<rparr>)
      else st)"

text \<open>
  A run of consecutive failed loads: a first call \<^verbatim>\<open>loadAgentLocations()\<close> whose request
  ends as the head of the list, then each pending retry fires in turn and ends as the
  next element. The run stops when no retry is pending.
\<close>

fun retriesFail :: "fetch_outcome list \<Rightarrow> TrackingState \<Rightarrow> TrackingState" where
  "retriesFail [] st = st"
| "retriesFail (outcome # rest) st =
     (if retryTimers st = [] then st else retriesFail rest (retryTimerFires 0 outcome st))"

definition loadsFail :: "render_scope \<Rightarrow> fetch_outcome list \<Rightarrow> TrackingState \<Rightarrow> TrackingState" where
  "loadsFail scope outcomes st =
     (case outcomes of [] \<Rightarrow> st
      | outcome # rest \<Rightarrow> retriesFail rest (loadAgentLocations scope False outcome st))"

definition errorToasts :: "TrackingState \<Rightarrow> toast list" where
  "errorToasts st = filter (\<lambda>t. case t of ShowError a b \<Rightarrow> True | ShowSuccess a \<Rightarrow> False) (toasts st)"

text \<open>
  \<^verbatim>\<open>handleConnectionChange(connected)\<close>, the listener of the connection manager; the
  argument is called \<open>isUp\<close> here and in \<open>notifyConnectionCallbacks\<close>.
\<close>

definition handleConnectionChange :: "bool \<Rightarrow> TrackingState \<Rightarrow> TrackingState" where
  "handleConnectionChange isUp st =
     (let st1 = st \<lparr> wsConnected := isUp \<rparr>
      in if isUp
         then st1 \<lparr> toasts := toasts st1 @ [ShowSuccess ''Real-time tracking connected''] \<rparr>
         else st1 \<lparr> toasts := toasts st1 @ [ShowError ''Real-time tracking disconnected'' None] \<rparr>)"

text \<open>
  The callback of the fallback interval (every \<open>UPDATE_INTERVAL\<close> ms), created by the mount
  effect: \<^verbatim>\<open>if (!wsConnected) { loadAgentLocations(); loadLocationStats(); }\<close>, with
  \<^verbatim>\<open>wsConnected\<close> the constant of its scope.
\<close>

definition pollTick :: "render_scope \<Rightarrow> fetch_outcome \<Rightarrow> TrackingState \<Rightarrow> TrackingState" where
  "pollTick scope outcome st =
     (if \<not> seen_wsConnected scope
      then loadLocationStats scope (loadAgentLocations scope False outcome st)
      else st)"

section \<open>The map component \<^verbatim>\<open>MapComponent\<close>: viewport fitting\<close>

record LatLng =
  lat :: real
  lng :: real

text \<open>
  The properties that \<^verbatim>\<open>AgentTracking\<close> passes to select the framing; \<^verbatim>\<open>MapComponent\<close>
  destructures \<^verbatim>\<open>agents\<close>, \<^verbatim>\<open>onAgentClick\<close>, \<^verbatim>\<open>center\<close>, \<^verbatim>\<open>zoom\<close> and \<^verbatim>\<open>height\<close> only.
\<close>

record GoogleMapProps =
  center :: "LatLng option"
  zoom :: "real option"
  enableSmoothMovement :: "bool option"
  autoFitBounds :: "bool option"
  preserveZoom :: "bool option"

datatype map_view = overview | agent_detail

text \<open>The properties of the \<^verbatim>\<open><GoogleMap ... />\<close> element in \<^verbatim>\<open>AgentTracking\<close>.\<close>

definition googleMapProps :: "map_view \<Rightarrow> AgentLocation option \<Rightarrow> GoogleMapProps" where
  "googleMapProps mapView focusedAgent =
     \<lparr> center = (case focusedAgent of
                   Some a \<Rightarrow> Some \<lparr> lat = latitude a, lng = longitude a \<rparr>
                 | None \<Rightarrow> None),
       zoom = Some (if focusedAgent \<noteq> None then 15 else 10),
       enableSmoothMovement = Some True,
       autoFitBounds = Some (mapView = overview),
       preserveZoom = Some (mapView = agent_detail) \<rparr>"

text \<open>
  The calls the effect makes on the map widget. \<open>FitBounds ps\<close> is \<^verbatim>\<open>map.fitBounds(bounds)\<close>
  for a \<^verbatim>\<open>LatLngBounds\<close> extended by the positions \<open>ps\<close>; \<open>ClampZoomOnce\<close> registers the
  one-time \<^verbatim>\<open>bounds_changed\<close> listener.
\<close>

datatype map_call = SetCenter LatLng | SetZoom real | FitBounds "LatLng list" | ClampZoomOnce

text \<open>
  The "smart bounds fitting" effect. \<open>mapReady\<close> is \<^verbatim>\<open>map && window.google\<close>; the markers
  are the entries of \<^verbatim>\<open>markersRef.current\<close> in insertion order, each with what
  \<^verbatim>\<open>getPosition()\<close> returns. The effect reads no property of the component.
\<close>

definition fitViewportEffect ::
  "GoogleMapProps \<Rightarrow> bool \<Rightarrow> (string \<times> LatLng option) list \<Rightarrow> map_call list" where
  "fitViewportEffect props mapReady currentMarkers =
     (if \<not> mapReady \<or> currentMarkers = [] then []
      else let positions = List.map_filter snd currentMarkers;
               validMarkers = length positions
           in if validMarkers = 1
              then (case snd (hd currentMarkers) of
                      Some position \<Rightarrow> [SetCenter position, SetZoom 15]
                    | None \<Rightarrow> [])
              else if validMarkers > 1 then [FitBounds positions, ClampZoomOnce]
              else [])"

text \<open>
  The listener registered by \<open>ClampZoomOnce\<close>, given \<^verbatim>\<open>map.getZoom()\<close> when it runs: the
  zoom of the map afterwards.
\<close>

definition clampZoom :: "real \<Rightarrow> real" where
  "clampZoom z = (if z > 16 then 16 else z)"

section \<open>Concrete states used by the examples\<close>

text \<open>
  The service after \<^verbatim>\<open>connect()\<close> and one \<^verbatim>\<open>onWebSocketClose\<close>: a reconnect is pending.
\<close>

definition failedOnce :: "string option \<Rightarrow> WebSocketService" where
  "failedOnce token = onWebSocketClose (connect token (constructor token))"

text \<open>Two markers, both with a position.\<close>

definition markerPositions :: "(string \<times> LatLng option) list" where
  "markerPositions =
     [(''A1'', Some \<lparr> lat = 2861 / 100, lng = 7720 / 100 \<rparr>),
      (''A2'', Some \<lparr> lat = 18, lng = 73 \<rparr>)]"

section \<open>Properties of the store\<close>

lemma find_agentId_None:
  "(find (\<lambda>agent. agentId agent = k) xs = None) = (k \<notin> set (map agentId xs))"
  by (induction xs) auto

lemma map_agentId_location_update:
  "map agentId (map (\<lambda>agent. if agentId agent = agentId u
                              then spread_agent_update agent u t else agent) xs)
   = map agentId xs"
  by (induction xs) (auto simp: spread_agent_update_def)

lemma map_unchanged_when_absent:
  "k \<notin> set (map agentId xs) \<Longrightarrow> map (\<lambda>agent. if agentId agent = k then f agent else agent) xs = xs"
  by (induction xs) auto

lemma handleStatusUpdate_keeps_consistent:
  "store_consistent prevAgents \<Longrightarrow> store_consistent (handleStatusUpdate su t prevAgents)"
  by (induction prevAgents)
     (auto simp: store_consistent_def handleStatusUpdate_def isOnline_consistent_def)

lemma handleLocationUpdate_absent:
  "agentId u \<notin> set (map agentId prevAgents) \<Longrightarrow>
   handleLocationUpdate u t prevAgents = prevAgents @ [spread_update u t]"
  by (simp add: handleLocationUpdate_def Let_def map_unchanged_when_absent find_agentId_None)

lemma handleLocationUpdate_present:
  "agentId u \<in> set (map agentId prevAgents) \<Longrightarrow>
   handleLocationUpdate u t prevAgents =
   map (\<lambda>agent. if agentId agent = agentId u then spread_agent_update agent u t else agent) prevAgents"
  unfolding handleLocationUpdate_def Let_def find_agentId_None map_agentId_location_update
  by simp

lemma handleLocationUpdate_keeps_consistent:
  "store_consistent prevAgents \<Longrightarrow> isOnline_consistent u \<Longrightarrow>
   store_consistent (handleLocationUpdate u t prevAgents)"
proof (cases "agentId u \<in> set (map agentId prevAgents)")
  case True
  assume "store_consistent prevAgents" "isOnline_consistent u"
  then show ?thesis
    unfolding handleLocationUpdate_present [OF True]
    by (induction prevAgents)
       (auto simp: store_consistent_def isOnline_consistent_def spread_agent_update_def)
next
  case False
  assume "store_consistent prevAgents" "isOnline_consistent u"
  then show ?thesis
    unfolding handleLocationUpdate_absent [OF False]
    by (simp add: store_consistent_def isOnline_consistent_def spread_update_def)
qed

text \<open>
  Claim C1: after every mutation of the store (location update, status update, snapshot
  load) every stored record has \<open>isOnline = (connectionStatus = ONLINE)\<close>, also for a
  location update whose \<open>isOnline\<close> disagrees with its \<open>connectionStatus\<close>.
  \<^verbatim>\<open>handleStatusUpdate\<close> recomputes \<open>isOnline\<close> (lemma \<open>handleStatusUpdate_keeps_consistent\<close>);
  \<^verbatim>\<open>handleLocationUpdate\<close> copies both fields of the event, so it keeps the invariant only
  for a consistent event (lemma \<open>handleLocationUpdate_keeps_consistent\<close>). At the event
  \<open>inconsistentUpdateA2\<close> (\<open>OFFLINE\<close> with \<open>isOnline = True\<close>) applied to the empty store,
  the stored record is \<open>OFFLINE\<close> with \<open>isOnline = True\<close>: the invariant is broken. A
  snapshot that holds such a record is stored as it is, too.
\<close>

theorem location_update_breaks_isOnline_invariant:
  "store_consistent [] \<and>
   handleLocationUpdate inconsistentUpdateA2 ''now'' [] = [inconsistentUpdateA2 \<lparr> lastUpdate := ''now'' \<rparr>] \<and>
   isOnline (hd (handleLocationUpdate inconsistentUpdateA2 ''now'' [])) \<and>
   connectionStatus (hd (handleLocationUpdate inconsistentUpdateA2 ''now'' [])) = OFFLINE \<and>
   \<not> store_consistent (handleLocationUpdate inconsistentUpdateA2 ''now'' []) \<and>
   \<not> store_consistent (loadSnapshot (Some [inconsistentUpdateA2]))"
  by (simp add: store_consistent_def isOnline_consistent_def handleLocationUpdate_def
        spread_update_def loadSnapshot_def inconsistentUpdateA2_def)

text \<open>
  Claim C7: applying a location update to a stored record is a field-wise merge: a field
  that the event lacks (\<open>accuracy\<close>, \<open>batteryLevel\<close>, \<open>isCharging\<close> are the fields an
  event may lack) keeps its stored value, and the records of the other agents are
  untouched.
\<close>

theorem location_update_merges_fieldwise:
  assumes "i < length prevAgents"
  shows "(agentId (prevAgents ! i) \<noteq> agentId u \<longrightarrow>
            handleLocationUpdate u t prevAgents ! i = prevAgents ! i) \<and>
         (agentId (prevAgents ! i) = agentId u \<longrightarrow>
            (accuracy u = None \<longrightarrow>
               accuracy (handleLocationUpdate u t prevAgents ! i) = accuracy (prevAgents ! i)) \<and>
            (batteryLevel u = None \<longrightarrow>
               batteryLevel (handleLocationUpdate u t prevAgents ! i) = batteryLevel (prevAgents ! i)) \<and>
            (isCharging u = None \<longrightarrow>
               isCharging (handleLocationUpdate u t prevAgents ! i) = isCharging (prevAgents ! i)))"
proof (cases "agentId u \<in> set (map agentId prevAgents)")
  case True
  show ?thesis
    unfolding handleLocationUpdate_present [OF True]
    using assms by (simp add: spread_agent_update_def)
next
  case False
  then have "agentId (prevAgents ! i) \<noteq> agentId u"
    using assms by (metis length_map nth_map nth_mem)
  then show ?thesis
    unfolding handleLocationUpdate_absent [OF False]
    using assms by (simp add: nth_append)
qed

text \<open>
  The stored record \<open>agentA1\<close> has \<open>batteryLevel = 80\<close>; the event \<open>sparseUpdateA1\<close> has
  none; the merged record still has 80.
\<close>

theorem location_update_merges_fieldwise_witness:
  "(0::nat) < length [agentA1] \<and> agentId ([agentA1] ! 0) = agentId sparseUpdateA1 \<and>
   batteryLevel sparseUpdateA1 = None \<and> batteryLevel ([agentA1] ! 0) = Some 80 \<and>
   batteryLevel (handleLocationUpdate sparseUpdateA1 ''now'' [agentA1] ! 0) = Some 80"
proof -
  have h: "(0::nat) < length [agentA1]" by simp
  show ?thesis
    using location_update_merges_fieldwise [OF h, where u = sparseUpdateA1 and t = "''now''"]
    by (simp add: agentA1_def sparseUpdateA1_def)
qed

text \<open>
  Claim C8: in a store with pairwise distinct agent ids, a status update for an id that
  is not stored leaves the store as it is, and a location update for an id that is not
  stored appends exactly one record: the length grows by one and the ids stay distinct.
\<close>

theorem unknown_agent_status_ignored_location_inserted:
  assumes "distinct (map agentId prevAgents)"
    and "ConnectionStatusUpdate.agentId su \<notin> set (map agentId prevAgents)"
    and "agentId u \<notin> set (map agentId prevAgents)"
  shows "handleStatusUpdate su t prevAgents = prevAgents \<and>
         handleLocationUpdate u t prevAgents = prevAgents @ [spread_update u t] \<and>
         length (handleLocationUpdate u t prevAgents) = length prevAgents + 1 \<and>
         distinct (map agentId (handleLocationUpdate u t prevAgents))"
proof -
  have s: "handleStatusUpdate su t prevAgents = prevAgents"
    unfolding handleStatusUpdate_def using assms(2) by (rule map_unchanged_when_absent)
  have l: "handleLocationUpdate u t prevAgents = prevAgents @ [spread_update u t]"
    using assms(3) by (rule handleLocationUpdate_absent)
  have "agentId (spread_update u t) = agentId u"
    by (simp add: spread_update_def)
  then have d: "distinct (map agentId (prevAgents @ [spread_update u t]))"
    using assms(1,3) by simp
  show ?thesis using s l d by simp
qed

text \<open>The store \<open>[agentA1]\<close>, a status update for \<open>A9\<close> and a location update for \<open>A2\<close>.\<close>

theorem unknown_agent_status_ignored_location_inserted_witness:
  "distinct (map agentId [agentA1]) \<and>
   ConnectionStatusUpdate.agentId statusUpdateA9 \<notin> set (map agentId [agentA1]) \<and>
   agentId inconsistentUpdateA2 \<notin> set (map agentId [agentA1]) \<and>
   handleStatusUpdate statusUpdateA9 ''now'' [agentA1] = [agentA1] \<and>
   length (handleLocationUpdate inconsistentUpdateA2 ''now'' [agentA1]) = 2 \<and>
   distinct (map agentId (handleLocationUpdate inconsistentUpdateA2 ''now'' [agentA1]))"
proof -
  have h1: "distinct (map agentId [agentA1])" by simp
  have h2: "ConnectionStatusUpdate.agentId statusUpdateA9 \<notin> set (map agentId [agentA1])"
    by (simp add: statusUpdateA9_def agentA1_def)
  have h3: "agentId inconsistentUpdateA2 \<notin> set (map agentId [agentA1])"
    by (simp add: inconsistentUpdateA2_def agentA1_def)
  note r = unknown_agent_status_ignored_location_inserted [OF h1 h2 h3, where t = "''now''"]
  have a: "handleStatusUpdate statusUpdateA9 ''now'' [agentA1] = [agentA1]"
    using r by blast
  have b: "length (handleLocationUpdate inconsistentUpdateA2 ''now'' [agentA1]) = 2"
    using r by simp
  have c: "distinct (map agentId (handleLocationUpdate inconsistentUpdateA2 ''now'' [agentA1]))"
    using r by blast
  show ?thesis
    using h1 h2 h3 a b c by blast
qed

section \<open>Properties of the connection manager\<close>

lemma onFailure_eq:
  "onFailure f s = handleReconnect (notifyConnectionCallbacks False (s \<lparr> isConnected := False \<rparr>))"
  by (cases f) (simp_all add: onFailure_def onStompError_def onWebSocketError_def onWebSocketClose_def)

lemma onFailure_fields:
  "reconnectDelay (onFailure f s) = reconnectDelay s"
  "reconnectAttempts (onFailure f s) = min (Suc (reconnectAttempts s)) (max (reconnectAttempts s) 5)"
  "reconnectTimers (onFailure f s) =
     (if reconnectAttempts s < 5
      then reconnectTimers s @ [min (reconnectDelay s * 2 ^ reconnectAttempts s) 30000]
      else reconnectTimers s)"
  by (auto simp: onFailure_eq handleReconnect_def notifyConnectionCallbacks_def Let_def
        maxReconnectAttempts_def maxReconnectDelay_def)

lemma consecutiveFailures_timers:
  "reconnectDelay s = 1000 \<Longrightarrow> reconnectAttempts s = a \<Longrightarrow> a \<le> 5 \<Longrightarrow>
   reconnectTimers (consecutiveFailures fs s) =
     reconnectTimers s @ map backoffDelay [Suc a ..< Suc (min (a + length fs) 5)] \<and>
   reconnectAttempts (consecutiveFailures fs s) = min (a + length fs) 5"
  unfolding consecutiveFailures_def
proof (induction fs arbitrary: s a)
  case Nil
  then show ?case by simp
next
  case (Cons f fs)
  show ?case
  proof (cases "a < 5")
    case True
    have d: "reconnectDelay (onFailure f s) = 1000"
      using Cons.prems by (simp add: onFailure_fields)
    have n: "reconnectAttempts (onFailure f s) = Suc a"
      using Cons.prems True by (simp add: onFailure_fields)
    have t: "reconnectTimers (onFailure f s) = reconnectTimers s @ [backoffDelay (Suc a)]"
      using Cons.prems True by (simp add: onFailure_fields backoffDelay_def)
    have le: "Suc a \<le> 5" using True by simp
    have lt: "Suc a < Suc (min (Suc a + length fs) 5)"
      using True by simp
    have len: "a + length (f # fs) = Suc a + length fs"
      by simp
    have up: "[Suc a ..< Suc (min (Suc a + length fs) 5)]
              = Suc a # [Suc (Suc a) ..< Suc (min (Suc a + length fs) 5)]"
      using lt by (rule upt_conv_Cons)
    note ih = Cons.IH [OF d n le]
    have ih1: "reconnectTimers (fold onFailure fs (onFailure f s)) =
          reconnectTimers s @ map backoffDelay (Suc a # [Suc (Suc a) ..< Suc (min (Suc a + length fs) 5)])"
      using ih unfolding t by (simp only: list.map append_assoc append.simps)
    have ih2: "reconnectAttempts (fold onFailure fs (onFailure f s)) = min (Suc a + length fs) 5"
      using ih by (rule conjunct2)
    show ?thesis
      unfolding len fold_Cons comp_apply
      using ih1 ih2 unfolding up [symmetric] by (rule conjI)
  next
    case False
    then have a5: "a = 5" using Cons.prems by simp
    have d: "reconnectDelay (onFailure f s) = 1000"
      using Cons.prems by (simp add: onFailure_fields)
    have n: "reconnectAttempts (onFailure f s) = 5"
      using Cons.prems a5 by (simp add: onFailure_fields)
    have t: "reconnectTimers (onFailure f s) = reconnectTimers s"
      using Cons.prems a5 by (simp add: onFailure_fields)
    have e: "[Suc a ..< Suc 5] = []"
      using a5 by simp
    have e': "[Suc 5 ..< Suc (min (5 + length fs) 5)] = []"
      by simp
    have m: "min (a + length (f # fs)) 5 = 5" "min (5 + length fs) 5 = 5"
      using a5 by simp_all
    have le5: "(5::nat) \<le> 5" by simp
    note ih = Cons.IH [OF d n le5]
    have ih1: "reconnectTimers (fold onFailure fs (onFailure f s)) = reconnectTimers s @ map backoffDelay []"
      using ih unfolding e' t by (simp only: list.map append_Nil2)
    have ih2: "reconnectAttempts (fold onFailure fs (onFailure f s)) = 5"
      using ih unfolding m by (rule conjunct2)
    show ?thesis
      unfolding m fold_Cons comp_apply
      using ih1 ih2 unfolding e [symmetric] by (rule conjI)
  qed
qed

lemma onConnect_fields:
  "reconnectAttempts (onConnect s) = 0"
  "reconnectDelay (onConnect s) = 1000"
  "isConnected (onConnect s)"
  "reconnectTimers (onConnect s) = reconnectTimers s"
  by (simp_all add: onConnect_def subscribeToTopics_def notifyConnectionCallbacks_def)

text \<open>
  Claim C2: from a state with the attempt counter at 0 (a new service, or one that has
  just connected), a run of consecutive transport failures schedules the reconnect delays
  \<open>min (1000 * 2 ^ (N - 1)) 30000\<close> for \<open>N = 1, ..., 5\<close> in this order and nothing more: a
  failure that comes after five schedules no reconnect. \<^verbatim>\<open>onConnect\<close> puts the counter
  back to 0 (and the base delay to 1000) in every state \<open>s'\<close>.
\<close>

theorem reconnect_backoff_schedule:
  assumes "reconnectAttempts s = 0" and "reconnectDelay s = 1000"
  shows "reconnectTimers (consecutiveFailures fs s) =
           reconnectTimers s @ map (\<lambda>n. min (1000 * 2 ^ (n - 1)) 30000) [1 ..< Suc (min (length fs) 5)] \<and>
         reconnectAttempts (consecutiveFailures fs s) = min (length fs) 5 \<and>
         (5 \<le> length fs \<longrightarrow> reconnectTimers (onFailure f (consecutiveFailures fs s))
                              = reconnectTimers (consecutiveFailures fs s)) \<and>
         reconnectAttempts (onConnect s') = 0 \<and>
         reconnectDelay (onConnect s') = 1000"
proof -
  have le: "(0::nat) \<le> 5" by simp
  note r = consecutiveFailures_timers [OF assms(2) assms(1) le, of fs]
  have m: "map backoffDelay [Suc 0 ..< Suc (min (length fs) 5)]
           = map (\<lambda>n. min (1000 * 2 ^ (n - 1)) 30000) [1 ..< Suc (min (length fs) 5)]"
    by (simp add: backoffDelay_def)
  have a: "reconnectAttempts (consecutiveFailures fs s) = min (length fs) 5"
    using r by simp
  have t: "reconnectTimers (consecutiveFailures fs s) =
           reconnectTimers s @ map (\<lambda>n. min (1000 * 2 ^ (n - 1)) 30000) [1 ..< Suc (min (length fs) 5)]"
    using r unfolding m [symmetric] by simp
  have x: "5 \<le> length fs \<longrightarrow> reconnectTimers (onFailure f (consecutiveFailures fs s))
                              = reconnectTimers (consecutiveFailures fs s)"
    using a by (simp add: onFailure_fields)
  have c: "reconnectAttempts (onConnect s') = 0" "reconnectDelay (onConnect s') = 1000"
    by (simp_all add: onConnect_fields)
  show ?thesis
    using t a x c by blast
qed

text \<open>
  Seven failures in a row on a new service: five reconnects, with the delays 1000, 2000,
  4000, 8000 and 16000 ms.
\<close>

theorem reconnect_backoff_schedule_witness:
  "reconnectAttempts (constructor (Some ''tok'')) = 0 \<and>
   reconnectDelay (constructor (Some ''tok'')) = 1000 \<and>
   reconnectTimers (consecutiveFailures
      [WebSocketError, WebSocketClose, StompError, WebSocketClose, WebSocketClose, WebSocketClose, WebSocketClose]
      (constructor (Some ''tok''))) = [1000, 2000, 4000, 8000, 16000]"
proof -
  have h1: "reconnectAttempts (constructor (Some ''tok'')) = 0"
    by (simp add: constructor_def setupClient_def)
  have h2: "reconnectDelay (constructor (Some ''tok'')) = 1000"
    by (simp add: constructor_def setupClient_def)
  have t: "reconnectTimers (constructor (Some ''tok'')) = []"
    by (simp add: constructor_def setupClient_def)
  have u: "[1 ..< Suc (min (length [WebSocketError, WebSocketClose, StompError, WebSocketClose, WebSocketClose, WebSocketClose, WebSocketClose]) 5)] = [1,2,3,4,5::nat]"
    by (simp add: upt_conv_Cons)
  show ?thesis
    using h1 h2 reconnect_backoff_schedule [OF h1 h2,
        where fs = "[WebSocketError, WebSocketClose, StompError, WebSocketClose, WebSocketClose, WebSocketClose, WebSocketClose]"]
    unfolding u t by simp
qed

text \<open>
  Claim C6: \<^verbatim>\<open>connect()\<close> on a connected service returns at once: the state is the same,
  so no \<^verbatim>\<open>subscribe\<close> call is added and \<open>isConnected\<close> and the attempt counter are as
  before.
\<close>

theorem connect_when_connected_is_noop:
  assumes "isConnected s"
  shows "connect token s = s \<and>
         subscribeCalls (connect token s) = subscribeCalls s \<and>
         isConnected (connect token s) = isConnected s \<and>
         reconnectAttempts (connect token s) = reconnectAttempts s"
  using assms by (simp add: connect_def)

text \<open>
  A service that has connected once holds the three subscriptions of \<^verbatim>\<open>onConnect\<close>, and
  still exactly those after a second \<^verbatim>\<open>connect()\<close>.
\<close>

theorem connect_when_connected_is_noop_witness:
  "isConnected (onConnect (connect (Some ''tok'') (constructor (Some ''tok'')))) \<and>
   subscribeCalls (connect (Some ''tok'') (onConnect (connect (Some ''tok'') (constructor (Some ''tok'')))))
     = [''/topic/location/updates'', ''/topic/location/status'', ''/topic/location/disconnection'']"
proof -
  have h: "isConnected (onConnect (connect (Some ''tok'') (constructor (Some ''tok''))))"
    by (simp add: onConnect_fields)
  have c: "subscribeCalls (onConnect (connect (Some ''tok'') (constructor (Some ''tok''))))
     = [''/topic/location/updates'', ''/topic/location/status'', ''/topic/location/disconnection'']"
    by (simp add: onConnect_def subscribeToTopics_def notifyConnectionCallbacks_def connect_def
          constructor_def setupClient_def)
  show ?thesis
    using h c connect_when_connected_is_noop [OF h, of "Some ''tok''"] by simp
qed

lemma failedOnce_fields:
  "reconnectTimers (failedOnce (Some ''tok'')) = [1000]"
  "clientCreated (failedOnce (Some ''tok''))"
  "clientActive (failedOnce (Some ''tok''))"
  "\<not> isConnected (failedOnce (Some ''tok''))"
  by (simp_all add: failedOnce_def onWebSocketClose_def handleReconnect_def
        notifyConnectionCallbacks_def connect_def constructor_def setupClient_def
        maxReconnectAttempts_def maxReconnectDelay_def Let_def)

lemma disconnect_fields:
  "reconnectTimers (disconnect s) = reconnectTimers s"
  "clientCreated (disconnect s) = clientCreated s"
  "clientCreated s \<Longrightarrow> \<not> clientActive (disconnect s)"
  "clientCreated s \<Longrightarrow> \<not> isConnected (disconnect s)"
  "clientCreated s \<Longrightarrow> connectionNotified (disconnect s) = connectionNotified s @ [False]"
  "\<not> clientCreated s \<Longrightarrow> disconnect s = s"
  by (simp_all add: disconnect_def notifyConnectionCallbacks_def)

lemma timer_after_disconnect_reactivates:
  "clientCreated s \<Longrightarrow> i < length (reconnectTimers s) \<Longrightarrow>
   clientActive (reconnectTimerFires token i (disconnect s))"
  by (simp add: reconnectTimerFires_def disconnect_def notifyConnectionCallbacks_def
        connect_def Let_def)

text \<open>
  Claim C5 says that \<^verbatim>\<open>disconnect()\<close> cancels any pending reconnect timer, so that no
  reconnect scheduled before fires after it. In the state \<open>failedOnce\<close> a reconnect is
  pending with delay 1000; after \<^verbatim>\<open>disconnect()\<close> the client is inactive, the timer is
  still pending, and when it fires it finds \<open>isConnected\<close> false and activates the client
  again.
\<close>

theorem disconnect_keeps_reconnect_timer_counterexample:
  "\<not> clientActive (disconnect (failedOnce (Some ''tok''))) \<and>
   reconnectTimers (disconnect (failedOnce (Some ''tok''))) = [1000] \<and>
   clientActive (reconnectTimerFires (Some ''tok'') 0 (disconnect (failedOnce (Some ''tok''))))"
  by (simp add: disconnect_fields failedOnce_fields timer_after_disconnect_reactivates)

text \<open>
  Claim C5, amended: \<^verbatim>\<open>disconnect()\<close> leaves the pending reconnect timers as they are.
  Without a client it does nothing. With a client it deactivates the session, sets
  \<open>isConnected\<close> to false and notifies the listeners with \<open>False\<close>; any reconnect timer
  pending before still fires afterwards and activates the client again; a second
  \<^verbatim>\<open>disconnect()\<close> changes nothing but notifies the listeners once more.
\<close>

theorem disconnect_deactivates_and_notifies:
  "reconnectTimers (disconnect s) = reconnectTimers s \<and>
   (\<not> clientCreated s \<longrightarrow> disconnect s = s) \<and>
   (clientCreated s \<longrightarrow>
      \<not> clientActive (disconnect s) \<and> \<not> isConnected (disconnect s) \<and>
      connectionNotified (disconnect s) = connectionNotified s @ [False] \<and>
      disconnect (disconnect s) =
        (disconnect s) \<lparr> connectionNotified := connectionNotified s @ [False, False] \<rparr> \<and>
      (\<forall>i < length (reconnectTimers s).
         clientActive (reconnectTimerFires token i (disconnect s))))"
  by (simp add: disconnect_fields timer_after_disconnect_reactivates)
     (simp add: disconnect_def notifyConnectionCallbacks_def)

text \<open>
  The state \<open>failedOnce\<close> has a client and one pending timer.
\<close>

theorem disconnect_deactivates_and_notifies_witness:
  "clientCreated (failedOnce (Some ''tok'')) \<and>
   (0::nat) < length (reconnectTimers (failedOnce (Some ''tok''))) \<and>
   connectionNotified (disconnect (failedOnce (Some ''tok''))) = [False, False] \<and>
   clientActive (reconnectTimerFires (Some ''tok'') 0 (disconnect (failedOnce (Some ''tok''))))"
proof -
  have h1: "clientCreated (failedOnce (Some ''tok''))"
    by (simp add: failedOnce_fields)
  have h2: "(0::nat) < length (reconnectTimers (failedOnce (Some ''tok'')))"
    by (simp add: failedOnce_fields)
  have n: "connectionNotified (failedOnce (Some ''tok'')) = [False]"
    by (simp add: failedOnce_def onWebSocketClose_def handleReconnect_def
        notifyConnectionCallbacks_def connect_def constructor_def setupClient_def
        maxReconnectAttempts_def maxReconnectDelay_def Let_def)
  show ?thesis
    using h1 h2 n
      disconnect_deactivates_and_notifies [of "failedOnce (Some ''tok'')" "Some ''tok''"]
    by simp
qed

section \<open>Properties of snapshot loading and of the fallback poll\<close>

lemma thrown_Rejected: "thrown (Rejected e) = Some e"
  by (simp add: thrown_def)

lemma loadAgentLocations_retry:
  assumes "thrown outcome = Some e" and "name e \<noteq> ''AbortError''"
    and "seen_retryCount scope < 3"
  shows "retryTimers (loadAgentLocations scope r outcome st) =
           retryTimers st @ [(2000 * (seen_retryCount scope + 1), scope)]"
    and "toasts (loadAgentLocations scope r outcome st) = toasts st"
    and "agents (loadAgentLocations scope r outcome st) = agents st"
  using assms
  by (simp_all add: loadAgentLocations_def catchBlock_def Let_def MAX_RETRY_ATTEMPTS_def
        RETRY_DELAY_def)

lemma loadAgentLocations_abort:
  assumes "thrown outcome = Some e" and "name e = ''AbortError''"
  shows "retryTimers (loadAgentLocations scope r outcome st) = retryTimers st"
    and "toasts (loadAgentLocations scope r outcome st) =
           toasts st @ [ShowError ''Connection Error''
                          (Some ''Request timed out. Please check your connection.'')]"
    and "agents (loadAgentLocations scope r outcome st) = []"
  using assms
  by (simp_all add: loadAgentLocations_def catchBlock_def Let_def)

lemma retriesFail_keeps_retrying:
  assumes "\<forall>outcome \<in> set outcomes. \<exists>e. thrown outcome = Some e \<and> name e \<noteq> ''AbortError''"
    and "seen_retryCount scope < 3"
    and "retryTimers st = [(d, scope)]"
    and "d = 2000 * (seen_retryCount scope + 1)"
  shows "retryTimers (retriesFail outcomes st) = [(d, scope)] \<and>
         toasts (retriesFail outcomes st) = toasts st \<and>
         agents (retriesFail outcomes st) = agents st"
  using assms
proof (induction outcomes arbitrary: st)
  case Nil
  then show ?case by simp
next
  case (Cons outcome rest)
  obtain e where e: "thrown outcome = Some e" "name e \<noteq> ''AbortError''"
    using Cons.prems(1) by auto
  let ?st0 = "st \<lparr> retryTimers := [] \<rparr>"
  let ?st1 = "loadAgentLocations scope True outcome ?st0"
  have f: "retryTimerFires 0 outcome st = ?st1"
    using Cons.prems(3) by (simp add: retryTimerFires_def)
  have t: "retryTimers ?st1 = [(d, scope)]"
    using loadAgentLocations_retry(1) [OF e Cons.prems(2), of True ?st0] Cons.prems(4) by simp
  have u: "toasts ?st1 = toasts st"
    using loadAgentLocations_retry(2) [OF e Cons.prems(2), of True ?st0] by simp
  have v: "agents ?st1 = agents st"
    using loadAgentLocations_retry(3) [OF e Cons.prems(2), of True ?st0] by simp
  have r: "\<forall>outcome \<in> set rest. \<exists>e. thrown outcome = Some e \<and> name e \<noteq> ''AbortError''"
    using Cons.prems(1) by simp
  have ih: "retryTimers (retriesFail rest ?st1) = [(d, scope)] \<and>
            toasts (retriesFail rest ?st1) = toasts ?st1 \<and>
            agents (retriesFail rest ?st1) = agents ?st1"
    using Cons.IH [OF r Cons.prems(2) t Cons.prems(4)] .
  show ?case
    using ih u v f Cons.prems(3) by simp
qed

text \<open>
  Claim C3 says that a load aborted by the 10-second timeout is retried like any other
  network failure. For the load on mount: a network error schedules a retry (2000 ms) and
  shows no error, while an \<^verbatim>\<open>AbortError\<close> schedules no retry and shows the error at once.
\<close>

theorem timeout_is_not_retried_counterexample:
  "retryTimers (loadAgentLocations (firstRender True) False (Rejected networkError) initialState)
     = [(2000, firstRender True)] \<and>
   errorToasts (loadAgentLocations (firstRender True) False (Rejected networkError) initialState) = [] \<and>
   retryTimers (loadAgentLocations (firstRender True) False (Rejected abortError) initialState) = [] \<and>
   errorToasts (loadAgentLocations (firstRender True) False (Rejected abortError) initialState)
     = [ShowError ''Connection Error'' (Some ''Request timed out. Please check your connection.'')]"
  by (simp add: loadAgentLocations_def catchBlock_def Let_def thrown_def firstRender_def
        render_def initialState_def networkError_def abortError_def errorToasts_def
        MAX_RETRY_ATTEMPTS_def RETRY_DELAY_def locationEndpoint_def)

text \<open>
  Claim C3, amended: a load aborted by the timeout is not retried. The \<^verbatim>\<open>catch\<close> block
  keeps an error named \<^verbatim>\<open>AbortError\<close> out of the retry branch, so for every retry count,
  on a first call or on a retry, the load schedules no retry, shows the error "Connection
  Error" with the message "Request timed out. Please check your connection.", and empties
  the agent list.
\<close>

theorem timeout_surfaces_error_without_retry:
  assumes "name e = ''AbortError''"
  shows "retryTimers (loadAgentLocations scope isRetryAttempt (Rejected e) st) = retryTimers st \<and>
         toasts (loadAgentLocations scope isRetryAttempt (Rejected e) st) =
           toasts st @ [ShowError ''Connection Error''
                          (Some ''Request timed out. Please check your connection.'')] \<and>
         agents (loadAgentLocations scope isRetryAttempt (Rejected e) st) = []"
  using loadAgentLocations_abort [OF thrown_Rejected assms] by simp

text \<open>
  The load on mount, aborted.
\<close>

theorem timeout_surfaces_error_without_retry_witness:
  "name abortError = ''AbortError'' \<and>
   retryTimers (loadAgentLocations (firstRender True) False (Rejected abortError) initialState) = [] \<and>
   toasts (loadAgentLocations (firstRender True) False (Rejected abortError) initialState) =
     [ShowError ''Connection Error'' (Some ''Request timed out. Please check your connection.'')]"
proof -
  have h: "name abortError = ''AbortError''"
    by (simp add: abortError_def)
  show ?thesis
    using h timeout_surfaces_error_without_retry [OF h, of "firstRender True" False initialState]
    by (simp add: initialState_def)
qed

lemma loadsFail_keeps_retrying:
  assumes "outcomes \<noteq> []"
    and "\<forall>outcome \<in> set outcomes. \<exists>e. thrown outcome = Some e \<and> name e \<noteq> ''AbortError''"
    and "seen_retryCount scope < 3"
    and "retryTimers st = []"
  shows "toasts (loadsFail scope outcomes st) = toasts st \<and>
         agents (loadsFail scope outcomes st) = agents st \<and>
         retryTimers (loadsFail scope outcomes st)
           = [(2000 * (seen_retryCount scope + 1), scope)]"
proof -
  obtain outcome rest where o: "outcomes = outcome # rest"
    using assms(1) by (cases outcomes) auto
  obtain e where e: "thrown outcome = Some e" "name e \<noteq> ''AbortError''"
    using assms(2) o by auto
  let ?st1 = "loadAgentLocations scope False outcome st"
  have t1: "retryTimers ?st1 = [(2000 * (seen_retryCount scope + 1), scope)]"
    using loadAgentLocations_retry(1) [OF e assms(3), of False st] assms(4) by simp
  have r: "\<forall>outcome \<in> set rest. \<exists>e. thrown outcome = Some e \<and> name e \<noteq> ''AbortError''"
    using assms(2) o by simp
  note k = retriesFail_keeps_retrying [OF r assms(3) t1 refl]
  have l: "loadsFail scope outcomes st = retriesFail rest ?st1"
    by (simp add: loadsFail_def o)
  show ?thesis
    using k l loadAgentLocations_retry(2,3) [OF e assms(3), of False st] by simp
qed

text \<open>
  Claim C4: after three consecutive failed loads the error is shown, after the first and
  the second it is not, and the retries wait \<open>attempt * 2000\<close> ms. The \<^verbatim>\<open>catch\<close> block
  tests \<^verbatim>\<open>retryCount < MAX_RETRY_ATTEMPTS\<close> and waits \<^verbatim>\<open>RETRY_DELAY * (retryCount + 1)\<close>, but
  \<^verbatim>\<open>retryCount\<close> is the constant of the scope, and every retry runs in the scope of the
  call it retries. For the load on mount that constant is 0: after one, two and three
  network errors the pending retry waits 2000 ms each time; after the third failure no
  error has been shown, while the state variable \<open>retryCount\<close> has reached 3; after a
  fourth failure there is still no error and one more retry at 2000 ms. Lemma
  \<open>loadsFail_keeps_retrying\<close> says the same for a run of any length.
\<close>

theorem snapshot_retry_reads_stale_count:
  "seen_retryCount (firstRender True) = 0 \<and>
   retryTimers (loadsFail (firstRender True) [Rejected networkError] initialState)
     = [(2000, firstRender True)] \<and>
   retryTimers (loadsFail (firstRender True)
      [Rejected networkError, Rejected networkError] initialState)
     = [(2000, firstRender True)] \<and>
   retryTimers (loadsFail (firstRender True)
      [Rejected networkError, Rejected networkError, Rejected networkError] initialState)
     = [(2000, firstRender True)] \<and>
   errorToasts (loadsFail (firstRender True)
      [Rejected networkError, Rejected networkError, Rejected networkError] initialState) = [] \<and>
   retryCount (loadsFail (firstRender True)
      [Rejected networkError, Rejected networkError, Rejected networkError] initialState) = 3 \<and>
   errorToasts (loadsFail (firstRender True)
      [Rejected networkError, Rejected networkError, Rejected networkError,
       Rejected networkError] initialState) = [] \<and>
   retryTimers (loadsFail (firstRender True)
      [Rejected networkError, Rejected networkError, Rejected networkError,
       Rejected networkError] initialState)
     = [(2000, firstRender True)]"
  by (simp add: loadsFail_def retryTimerFires_def loadAgentLocations_def catchBlock_def Let_def
        thrown_def firstRender_def render_def initialState_def networkError_def errorToasts_def
        MAX_RETRY_ATTEMPTS_def RETRY_DELAY_def locationEndpoint_def)

lemma loadAgentLocations_fetches:
  "fetches (loadAgentLocations scope r outcome st) = fetches st @ [locationEndpoint scope]"
  by (simp add: loadAgentLocations_def catchBlock_def Let_def split: option.splits)

lemma pollTick_firstRender_fetches:
  "fetches (pollTick (firstRender isMaster) outcome st) =
     fetches st @ [locationEndpoint (firstRender isMaster), statsEndpoint (firstRender isMaster)]"
  by (simp add: pollTick_def loadLocationStats_def loadAgentLocations_fetches)
     (simp add: firstRender_def render_def initialState_def)

text \<open>
  Claim C10: the fallback poll fetches only while the stream is reported disconnected.
  The interval callback is created by the mount effect, so the \<^verbatim>\<open>wsConnected\<close> it tests
  is the constant of the first render, \<open>False\<close>. After the connection listener has
  reported the stream connected (\<open>wsConnected\<close> is true in the state), a tick of the
  interval still requests the snapshot and the statistics. Lemma
  \<open>pollTick_firstRender_fetches\<close> says that it does so in every state.
\<close>

theorem poll_runs_while_connected:
  "wsConnected (handleConnectionChange True initialState) \<and>
   fetches (pollTick (firstRender True) (Response True True None (Some []))
              (handleConnectionChange True initialState))
     = fetches (handleConnectionChange True initialState) @ [LocationAll, StatsAll]"
  by (simp add: pollTick_def handleConnectionChange_def firstRender_def render_def
        initialState_def loadLocationStats_def loadAgentLocations_def Let_def thrown_def
        locationEndpoint_def statsEndpoint_def)

section \<open>Properties of viewport fitting\<close>

lemma fitViewportEffect_one_marker:
  "length (List.map_filter snd ms) = 1 \<Longrightarrow> snd (hd ms) = Some p \<Longrightarrow>
   fitViewportEffect props True ms = [SetCenter p, SetZoom 15]"
  by (auto simp: fitViewportEffect_def Let_def)

lemma fitViewportEffect_ignores_props:
  "fitViewportEffect props mapReady ms = fitViewportEffect props' mapReady ms"
  by (simp add: fitViewportEffect_def)

lemma fitViewportEffect_many_markers:
  "length (List.map_filter snd ms) > 1 \<Longrightarrow>
   fitViewportEffect props True ms = [FitBounds (List.map_filter snd ms), ClampZoomOnce]"
  by (auto simp: fitViewportEffect_def Let_def)

lemma clampZoom_le: "clampZoom z \<le> 16"
  by (simp add: clampZoom_def)

text \<open>
  Claim C9: viewport fitting runs only in overview mode. In agent-detail mode with a
  focused agent, \<^verbatim>\<open>AgentTracking\<close> passes \<^verbatim>\<open>autoFitBounds = false\<close>; the effect does not read
  the property, and with two markers on a ready map it calls \<^verbatim>\<open>fitBounds\<close> all the same.
  When the effect runs with exactly one positioned marker that is also the first entry,
  it centres on it at zoom 15 (lemma \<open>fitViewportEffect_one_marker\<close>); with several
  positioned markers it calls \<^verbatim>\<open>fitBounds\<close> and registers the listener that brings a zoom
  above 16 down to 16 (lemmas \<open>fitViewportEffect_many_markers\<close>, \<open>clampZoom_le\<close>).
\<close>

theorem viewport_fit_runs_in_detail_mode:
  "autoFitBounds (googleMapProps agent_detail (Some agentA1)) = Some False \<and>
   fitViewportEffect (googleMapProps agent_detail (Some agentA1)) True markerPositions
     = [FitBounds [\<lparr> lat = 2861 / 100, lng = 7720 / 100 \<rparr>, \<lparr> lat = 18, lng = 73 \<rparr>],
        ClampZoomOnce]"
  by (simp add: googleMapProps_def fitViewportEffect_def markerPositions_def Let_def)

text \<open>In particular the effect is not idle in agent-detail mode.\<close>

theorem viewport_fit_runs_in_detail_mode_witness:
  "fitViewportEffect (googleMapProps agent_detail (Some agentA1)) True markerPositions \<noteq> []"
  using viewport_fit_runs_in_detail_mode by simp

end
